theory Spec2Isabelle
  imports Complex_Main "HOL-Library.AList"
begin

section \<open>Data model (shared/schema.ts)\<close>

text \<open>
  The marketplace keeps users, plans, products, coupons, sales and withdrawals.
  Each table of \<^verbatim>\<open>shared/schema.ts\<close> becomes a record with the fields that the
  settlement, coupon and withdrawal code reads or writes; presentation fields
  (username, e-mail, titles, \<^verbatim>\<open>createdAt\<close> and the like) take no part in any
  computation below and are left out.

  Number representation. Identifiers and counters are JavaScript numbers that only
  ever hold integers, so they are \<open>int\<close>. Monetary values and percentages are
  JavaScript numbers as well; they are modelled as exact rationals (\<open>rat\<close>), so
  \<open>+\<close>, \<open>-\<close>, \<open>*\<close> and \<open>/\<close> below are the mathematical operations. The rounding that
  IEEE-754 doubles add to each operation is not part of this model: every
  statement about money in this theory is a statement about the formulas of the
  code in exact arithmetic. Time stamps are milliseconds since the epoch, as the
  comparison of two \<^verbatim>\<open>Date\<close> objects compares them.
\<close>

type_synonym number = rat

text \<open>The result of \<^verbatim>\<open>parseInt\<close>: an integer, or \<^verbatim>\<open>NaN\<close> when the text does not start
  with one (or is missing).\<close>

datatype jsnum = NaN | Num int

text \<open>JavaScript truthiness of such a number: \<^verbatim>\<open>NaN\<close> and \<^verbatim>\<open>0\<close> are falsy.\<close>

fun truthy :: "jsnum \<Rightarrow> bool" where
  "truthy NaN = False"
| "truthy (Num n) = (n \<noteq> 0)"

record User =
  id :: int
  role :: string
  balance :: number
  planId :: "int option"

record Plan =
  id :: int
  name :: string
  platformFeePercentage :: number

record Product =
  id :: int
  sellerId :: int
  price :: number
  commissionRate :: number
  commissionType :: string

record Sale =
  id :: int
  productId :: jsnum
  buyerId :: jsnum
  sellerId :: jsnum
  affiliateId :: "jsnum option"
  amount :: number
  sellerAmount :: number
  affiliateAmount :: "number option"
  platformFee :: number
  status :: string
  paymentMethod :: string
  stripePaymentIntentId :: "string option"

record Coupon =
  id :: int
  sellerId :: int
  code :: string
  type :: string
  val :: number
  productId :: "int option"
  maxUsage :: "int option"
  usageCount :: int
  expiresAt :: "int option"

record Withdrawal =
  id :: int
  userId :: int
  amount :: number
  status :: string
  stripeTransferId :: "string option"

text \<open>
  In \<open>Coupon\<close> the field \<open>val\<close> is the column \<^verbatim>\<open>value\<close>. In \<open>Sale\<close> the
  identifiers are stored as the webhook parsed them with \<^verbatim>\<open>parseInt\<close>; the
  affiliate is \<open>None\<close> when the sale has none (\<^verbatim>\<open>undefined\<close>).
\<close>

section \<open>The in-memory store (class MemStorage)\<close>

text \<open>
  Each \<^verbatim>\<open>Map<number, T>\<close> is an association list in insertion order: \<open>map_of\<close> is
  \<^verbatim>\<open>Map.get\<close>, and \<open>AList.update\<close> is \<^verbatim>\<open>Map.set\<close> (an existing key keeps its place,
  a new key goes to the end), so \<open>map snd\<close> lists the values in the order of
  \<^verbatim>\<open>Array.from(map.values())\<close>.
\<close>

record MemStorage =
  users :: "(int \<times> User) list"
  products :: "(int \<times> Product) list"
  sales :: "(int \<times> Sale) list"
  coupons :: "(int \<times> Coupon) list"
  withdrawals :: "(int \<times> Withdrawal) list"
  plans :: "(int \<times> Plan) list"
  currentSaleId :: int
  currentWithdrawalId :: int

definition getUser :: "MemStorage \<Rightarrow> int \<Rightarrow> User option" where
  "getUser st i = map_of (users st) i"

text \<open>
  \<^verbatim>\<open>updateUser(id, userData)\<close> stores \<^verbatim>\<open>{ ...user, ...userData }\<close>. The partial object
  \<^verbatim>\<open>userData\<close> is given as the function that overwrites the fields it lists.
\<close>

definition updateUser :: "MemStorage \<Rightarrow> int \<Rightarrow> (User \<Rightarrow> User) \<Rightarrow> User option \<times> MemStorage" where
  "updateUser st i userData =
     (case map_of (users st) i of
        None \<Rightarrow> (None, st)
      | Some user \<Rightarrow>
          let updatedUser = userData user
          in (Some updatedUser, st\<lparr>users := AList.update i updatedUser (users st)\<rparr>))"

definition getProduct :: "MemStorage \<Rightarrow> int \<Rightarrow> Product option" where
  "getProduct st i = map_of (products st) i"

definition getPlan :: "MemStorage \<Rightarrow> int \<Rightarrow> Plan option" where
  "getPlan st i = map_of (plans st) i"

text \<open>\<^verbatim>\<open>createSale\<close> takes the next identifier and stores \<^verbatim>\<open>{ ...sale, id }\<close> under it.
  An \<^verbatim>\<open>InsertSale\<close> is a sale that still lacks its identifier.\<close>

type_synonym InsertSale = "int \<Rightarrow> Sale"

definition createSale :: "MemStorage \<Rightarrow> InsertSale \<Rightarrow> Sale \<times> MemStorage" where
  "createSale st sale =
     (let i = currentSaleId st;
          newSale = sale i
      in (newSale, st\<lparr>sales := AList.update i newSale (sales st),
                       currentSaleId := i + 1\<rparr>))"

definition getCouponByCode :: "MemStorage \<Rightarrow> string \<Rightarrow> Coupon option" where
  "getCouponByCode st c = find (\<lambda>coupon. Coupon.code coupon = c) (map snd (coupons st))"

definition incrementCouponUsage :: "MemStorage \<Rightarrow> int \<Rightarrow> Coupon option \<times> MemStorage" where
  "incrementCouponUsage st i =
     (case map_of (coupons st) i of
        None \<Rightarrow> (None, st)
      | Some coupon \<Rightarrow>
          let updatedCoupon = coupon\<lparr>usageCount := usageCount coupon + 1\<rparr>
          in (Some updatedCoupon, st\<lparr>coupons := AList.update i updatedCoupon (coupons st)\<rparr>))"

definition createWithdrawal :: "MemStorage \<Rightarrow> int \<Rightarrow> number \<Rightarrow> Withdrawal \<times> MemStorage" where
  "createWithdrawal st uid amt =
     (let i = currentWithdrawalId st;
          newWithdrawal = \<lparr>Withdrawal.id = i, userId = uid, amount = amt,
                           status = ''pending'', stripeTransferId = None\<rparr>
      in (newWithdrawal, st\<lparr>withdrawals := AList.update i newWithdrawal (withdrawals st),
                             currentWithdrawalId := i + 1\<rparr>))"

text \<open>The transfer reference is written only when it is truthy (given and not
  the empty string).\<close>

definition updateWithdrawalStatus ::
  "MemStorage \<Rightarrow> int \<Rightarrow> string \<Rightarrow> string option \<Rightarrow> Withdrawal option \<times> MemStorage" where
  "updateWithdrawalStatus st i newStatus transferId =
     (case map_of (withdrawals st) i of
        None \<Rightarrow> (None, st)
      | Some withdrawal \<Rightarrow>
          let w1 = withdrawal\<lparr>Withdrawal.status := newStatus\<rparr>;
              updatedWithdrawal =
                (case transferId of
                   None \<Rightarrow> w1
                 | Some t \<Rightarrow> if t = [] then w1 else w1\<lparr>stripeTransferId := Some t\<rparr>)
          in (Some updatedWithdrawal,
              st\<lparr>withdrawals := AList.update i updatedWithdrawal (withdrawals st)\<rparr>))"

section \<open>The document store (class MongoDBStorage)\<close>

text \<open>
  A collection is the list of its documents. \<^verbatim>\<open>findOneAndUpdate({ id }, { $inc:
  { usageCount: 1 } }, { returnDocument: 'after' })\<close> changes the first document
  with that identifier and returns it as changed; without a match nothing
  changes and the result is \<^verbatim>\<open>undefined\<close>.
\<close>

fun incrementCouponUsage_mongo :: "Coupon list \<Rightarrow> int \<Rightarrow> Coupon option \<times> Coupon list" where
  "incrementCouponUsage_mongo [] i = (None, [])"
| "incrementCouponUsage_mongo (c # cs) i =
     (if Coupon.id c = i
      then (let c' = c\<lparr>usageCount := usageCount c + 1\<rparr> in (Some c', c' # cs))
      else (let (r, cs') = incrementCouponUsage_mongo cs i in (r, c # cs')))"

text \<open>
  \<^verbatim>\<open>MongoDBStorage.createSale\<close> builds the document field by field and replaces
  falsy optional values by \<^verbatim>\<open>null\<close>: an affiliate identifier that is \<^verbatim>\<open>undefined\<close>,
  \<^verbatim>\<open>NaN\<close> or \<^verbatim>\<open>0\<close>, an affiliate amount of \<^verbatim>\<open>0\<close>, an empty payment reference; an
  empty status becomes \<^verbatim>\<open>pending\<close>. The identifier comes from a counter document
  and is given here as an argument.
\<close>

definition createSale_mongo :: "Sale list \<Rightarrow> int \<Rightarrow> InsertSale \<Rightarrow> Sale \<times> Sale list" where
  "createSale_mongo docs nextId sale =
     (let s = sale nextId;
          newSale =
            s\<lparr>Sale.affiliateId :=
                 (case Sale.affiliateId s of
                    None \<Rightarrow> None
                  | Some n \<Rightarrow> if truthy n then Some n else None),
               Sale.affiliateAmount :=
                 (case Sale.affiliateAmount s of
                    None \<Rightarrow> None
                  | Some a \<Rightarrow> if a = 0 then None else Some a),
               Sale.status := (if Sale.status s = [] then ''pending'' else Sale.status s),
               Sale.stripePaymentIntentId :=
                 (case Sale.stripePaymentIntentId s of
                    None \<Rightarrow> None
                  | Some r \<Rightarrow> if r = [] then None else Some r)\<rparr>
      in (newSale, docs @ [newSale]))"

section \<open>Route handlers (registerRoutes)\<close>

text \<open>A response is the status code with the JSON body that matters here.\<close>

datatype body =
    Message string
  | WithdrawalJson Withdrawal
  | CouponJson Coupon
  | PaymentIntentParams int
  | Received

type_synonym response = "nat \<times> body"

text \<open>
  \<^verbatim>\<open>req.session.userId\<close> is \<open>None\<close> when the session has no user. The middleware
  \<^verbatim>\<open>authenticate\<close> lets a request pass when the identifier is truthy, and
  \<^verbatim>\<open>authorize(roles)\<close> when moreover the user exists and has one of the roles.
\<close>

definition authenticate :: "int option \<Rightarrow> response option" where
  "authenticate sess =
     (case sess of
        None \<Rightarrow> Some (401, Message ''Unauthorized'')
      | Some uid \<Rightarrow> if uid = 0 then Some (401, Message ''Unauthorized'') else None)"

definition authorize :: "string list \<Rightarrow> MemStorage \<Rightarrow> int option \<Rightarrow> response option" where
  "authorize roles st sess =
     (case sess of
        None \<Rightarrow> Some (401, Message ''Unauthorized'')
      | Some uid \<Rightarrow>
          if uid = 0 then Some (401, Message ''Unauthorized'')
          else (case getUser st uid of
                  None \<Rightarrow> Some (403, Message ''Forbidden'')
                | Some user \<Rightarrow>
                    if role user \<in> set roles then None
                    else Some (403, Message ''Forbidden'')))"

subsection \<open>POST /api/withdrawals\<close>

text \<open>The body of the handler, run for the session's user once both middlewares
  have passed. \<^verbatim>\<open>!amount\<close> holds of the number \<^verbatim>\<open>0\<close>.\<close>

definition withdrawal_request :: "MemStorage \<Rightarrow> int \<Rightarrow> number \<Rightarrow> response \<times> MemStorage" where
  "withdrawal_request st uid amt =
     (case getUser st uid of
        None \<Rightarrow> ((404, Message ''User not found''), st)
      | Some user \<Rightarrow>
          if amt = 0 \<or> amt < 20
          then ((400, Message ''Minimum withdrawal amount is R$20''), st)
          else if balance user < amt
          then ((400, Message ''Insufficient balance''), st)
          else
            (let (withdrawal, st1) = createWithdrawal st uid amt;
                 (_, st2) = updateUser st1 uid (\<lambda>u. u\<lparr>balance := balance user - amt\<rparr>)
             in ((201, WithdrawalJson withdrawal), st2)))"

definition post_withdrawals :: "MemStorage \<Rightarrow> int option \<Rightarrow> number \<Rightarrow> response \<times> MemStorage" where
  "post_withdrawals st sess amt =
     (case authenticate sess of
        Some r \<Rightarrow> (r, st)
      | None \<Rightarrow>
          (case authorize [''vendor'', ''affiliate''] st sess of
             Some r \<Rightarrow> (r, st)
           | None \<Rightarrow>
               (case sess of
                  None \<Rightarrow> ((401, Message ''Unauthorized''), st)
                | Some uid \<Rightarrow> withdrawal_request st uid amt)))"

subsection \<open>PUT /api/withdrawals/:id/status\<close>

text \<open>The identifier in the path goes through \<^verbatim>\<open>parseInt\<close>; no withdrawal has the
  key \<^verbatim>\<open>NaN\<close>. \<^verbatim>\<open>!status\<close> holds of a missing status and of the empty string.\<close>

definition withdrawal_status_update ::
  "MemStorage \<Rightarrow> jsnum \<Rightarrow> string \<Rightarrow> string option \<Rightarrow> response \<times> MemStorage" where
  "withdrawal_status_update st withdrawalId newStatus transferId =
     (if newStatus = [] \<or> newStatus \<notin> set [''pending'', ''completed'', ''rejected'']
      then ((400, Message ''Invalid status''), st)
      else
        (case withdrawalId of
           NaN \<Rightarrow> ((404, Message ''Withdrawal not found''), st)
         | Num wid \<Rightarrow>
             (case updateWithdrawalStatus st wid newStatus transferId of
                (None, st1) \<Rightarrow> ((404, Message ''Withdrawal not found''), st1)
              | (Some withdrawal, st1) \<Rightarrow>
                  if newStatus = ''rejected''
                  then
                    (case getUser st1 (userId withdrawal) of
                       None \<Rightarrow> ((200, WithdrawalJson withdrawal), st1)
                     | Some user \<Rightarrow>
                         (let (_, st2) =
                                updateUser st1 (User.id user)
                                  (\<lambda>u. u\<lparr>balance := balance user + Withdrawal.amount withdrawal\<rparr>)
                          in ((200, WithdrawalJson withdrawal), st2)))
                  else ((200, WithdrawalJson withdrawal), st1))))"

definition put_withdrawal_status ::
  "MemStorage \<Rightarrow> int option \<Rightarrow> jsnum \<Rightarrow> string \<Rightarrow> string option \<Rightarrow> response \<times> MemStorage" where
  "put_withdrawal_status st sess withdrawalId newStatus transferId =
     (case authenticate sess of
        Some r \<Rightarrow> (r, st)
      | None \<Rightarrow>
          (case authorize [''admin''] st sess of
             Some r \<Rightarrow> (r, st)
           | None \<Rightarrow> withdrawal_status_update st withdrawalId newStatus transferId))"

subsection \<open>GET /api/coupons/:code/validate\<close>


subsection \<open>POST /api/create-payment-intent\<close>

text \<open>
  The condition under which the handler applies a coupon it has found. Its tests
  are on truthiness: \<^verbatim>\<open>!coupon.productId\<close> and \<^verbatim>\<open>!coupon.maxUsage\<close> hold of
  \<^verbatim>\<open>null\<close> and of \<^verbatim>\<open>0\<close>; an expiry date, when present, is an object and truthy.
\<close>

definition coupon_applies :: "Coupon \<Rightarrow> Product \<Rightarrow> int \<Rightarrow> bool" where
  "coupon_applies coupon product now \<longleftrightarrow>
     (case Coupon.productId coupon of None \<Rightarrow> True | Some p \<Rightarrow> p = 0 \<or> p = Product.id product)
     \<and> (case maxUsage coupon of None \<Rightarrow> True | Some m \<Rightarrow> m = 0 \<or> usageCount coupon < m)
     \<and> (case expiresAt coupon of None \<Rightarrow> True | Some e \<Rightarrow> e \<ge> now)"

definition apply_discount :: "Coupon \<Rightarrow> number \<Rightarrow> number" where
  "apply_discount coupon amt =
     (if Coupon.type coupon = ''percentage''
      then amt * (1 - val coupon / 100)
      else max 0 (amt - val coupon))"

text \<open>The amount to charge and the store after the coupon step. A coupon code
  is used when it is truthy (given and not empty).\<close>

definition payment_amount ::
  "MemStorage \<Rightarrow> Product \<Rightarrow> string option \<Rightarrow> int \<Rightarrow> number \<times> MemStorage" where
  "payment_amount st product couponCode now =
     (case couponCode of
        None \<Rightarrow> (price product, st)
      | Some c \<Rightarrow>
          if c = [] then (price product, st)
          else
            (case getCouponByCode st c of
               None \<Rightarrow> (price product, st)
             | Some coupon \<Rightarrow>
                 if coupon_applies coupon product now
                 then (apply_discount coupon (price product),
                       snd (incrementCouponUsage st (Coupon.id coupon)))
                 else (price product, st)))"



subsection \<open>POST /api/stripe-webhook\<close>

text \<open>
  The event arrives with its signature already verified. The metadata of the
  payment intent is given as the handler reads it: each identifier after
  \<^verbatim>\<open>parseInt\<close>, and the affiliate as \<open>None\<close> when \<^verbatim>\<open>metadata.affiliateId\<close> is missing
  or empty, so that the handler takes \<^verbatim>\<open>undefined\<close> for it.
\<close>

record Metadata =
  productId :: jsnum
  buyerId :: jsnum
  sellerId :: jsnum
  affiliateId :: "jsnum option"

record PaymentIntent =
  id :: string
  amount :: int
  metadata :: Metadata

record Event =
  type :: string
  object :: PaymentIntent

text \<open>The affiliate's commission on a sale of \<open>amt\<close>, after the 4% that the
  platform keeps of it.\<close>

definition commission :: "Product \<Rightarrow> number \<Rightarrow> number" where
  "commission product amt =
     (let affiliateAmount =
            (if commissionType product = ''percentage''
             then amt * (commissionRate product / 100)
             else commissionRate product);
          affiliatePlatformFee = affiliateAmount * 0.04
      in affiliateAmount - affiliatePlatformFee)"

text \<open>
  The block guarded by \<^verbatim>\<open>if (affiliateId)\<close>: it yields the affiliate's amount, the
  seller's amount before the platform fee, and the store after the affiliate's
  balance has been credited (when that user exists).
\<close>

definition affiliate_share ::
  "MemStorage \<Rightarrow> Product \<Rightarrow> number \<Rightarrow> jsnum option \<Rightarrow> number \<times> number \<times> MemStorage" where
  "affiliate_share st product amt aff =
     (case aff of
        None \<Rightarrow> (0, amt, st)
      | Some NaN \<Rightarrow> (0, amt, st)
      | Some (Num a) \<Rightarrow>
          if a = 0 then (0, amt, st)
          else
            (let affiliateAmount = commission product amt;
                 st1 = (case getUser st a of
                          None \<Rightarrow> st
                        | Some affiliate \<Rightarrow>
                            snd (updateUser st a
                                   (\<lambda>u. u\<lparr>balance := balance affiliate + affiliateAmount\<rparr>)))
             in (affiliateAmount, amt - affiliateAmount, st1)))"

text \<open>
  The settlement proper, once product, seller and plan have been found. The
  seller record is the one read before the affiliate was credited.
\<close>

definition settle ::
  "MemStorage \<Rightarrow> PaymentIntent \<Rightarrow> Product \<Rightarrow> int \<Rightarrow> User \<Rightarrow> Plan \<Rightarrow> MemStorage" where
  "settle st paymentIntent product sid seller plan =
     (let md = metadata paymentIntent;
          amt = of_int (PaymentIntent.amount paymentIntent) / 100;
          feePercentage = platformFeePercentage plan;
          (affiliateAmt, sellerAmt1, st1) =
            affiliate_share st product amt (Metadata.affiliateId md);
          fee = sellerAmt1 * (feePercentage / 100);
          sellerAmt = sellerAmt1 - fee;
          (_, st2) = updateUser st1 sid (\<lambda>u. u\<lparr>balance := balance seller + sellerAmt\<rparr>);
          (_, st3) =
            createSale st2
              (\<lambda>i. \<lparr>Sale.id = i,
                    productId = Metadata.productId md,
                    buyerId = Metadata.buyerId md,
                    sellerId = Metadata.sellerId md,
                    affiliateId = Metadata.affiliateId md,
                    amount = amt,
                    sellerAmount = sellerAmt,
                    affiliateAmount = Some affiliateAmt,
                    platformFee = fee,
                    status = ''completed'',
                    paymentMethod = ''stripe'',
                    stripePaymentIntentId = Some (PaymentIntent.id paymentIntent)\<rparr>)
      in st3)"

text \<open>A seller without a plan (\<^verbatim>\<open>null\<close> or \<^verbatim>\<open>0\<close>) is on plan 1.\<close>

definition seller_plan_id :: "User \<Rightarrow> int" where
  "seller_plan_id seller =
     (case planId seller of None \<Rightarrow> 1 | Some p \<Rightarrow> if p = 0 then 1 else p)"

definition payment_succeeded :: "MemStorage \<Rightarrow> PaymentIntent \<Rightarrow> response \<times> MemStorage" where
  "payment_succeeded st paymentIntent =
     (case Metadata.productId (metadata paymentIntent) of
        NaN \<Rightarrow> ((400, Message ''Product not found''), st)
      | Num pid \<Rightarrow>
          (case getProduct st pid of
             None \<Rightarrow> ((400, Message ''Product not found''), st)
           | Some product \<Rightarrow>
               (case Metadata.sellerId (metadata paymentIntent) of
                  NaN \<Rightarrow> ((400, Message ''Seller not found''), st)
                | Num sid \<Rightarrow>
                    (case getUser st sid of
                       None \<Rightarrow> ((400, Message ''Seller not found''), st)
                     | Some seller \<Rightarrow>
                         (case getPlan st (seller_plan_id seller) of
                            None \<Rightarrow> ((400, Message ''Plan not found''), st)
                          | Some plan \<Rightarrow>
                              ((200, Received),
                               settle st paymentIntent product sid seller plan))))))"

definition stripe_webhook :: "MemStorage \<Rightarrow> Event \<Rightarrow> response \<times> MemStorage" where
  "stripe_webhook st event =
     (if Event.type event = ''payment_intent.succeeded''
      then payment_succeeded st (object event)
      else ((200, Received), st))"

subsection \<open>The store at start-up\<close>

text \<open>The constructor of \<^verbatim>\<open>MemStorage\<close> creates the five plans and empty tables.\<close>

definition new_MemStorage :: MemStorage where
  "new_MemStorage =
     \<lparr>users = [], products = [], sales = [], coupons = [], withdrawals = [],
      plans =
        [(1, \<lparr>Plan.id = 1, name = ''Free'', platformFeePercentage = 6\<rparr>),
         (2, \<lparr>Plan.id = 2, name = ''Start'', platformFeePercentage = 5\<rparr>),
         (3, \<lparr>Plan.id = 3, name = ''Pro'', platformFeePercentage = 4\<rparr>),
         (4, \<lparr>Plan.id = 4, name = ''Master'', platformFeePercentage = 3\<rparr>),
         (5, \<lparr>Plan.id = 5, name = ''Infinity'', platformFeePercentage = 2\<rparr>)],
      currentSaleId = 1, currentWithdrawalId = 1\<rparr>"

text \<open>The test \<^verbatim>\<open>if (affiliateId)\<close> of the webhook: an affiliate takes part in the
  settlement when the parsed identifier is truthy.\<close>

definition affiliate_present :: "jsnum option \<Rightarrow> bool" where
  "affiliate_present aff = (case aff of None \<Rightarrow> False | Some n \<Rightarrow> truthy n)"

section \<open>Notions of the specification\<close>



definition spec_clamp :: "number \<Rightarrow> number \<Rightarrow> number \<Rightarrow> number" where
  "spec_clamp x lo hi = min (max x lo) hi"

section \<open>A small marketplace\<close>

text \<open>
  A store with a vendor on the Start plan (5%), an affiliate, an admin and a
  buyer; a product of 100 with a 10% commission and a product of 10 with a flat
  commission of 50; a coupon that has used up its single use and a coupon whose
  usage limit is 0.
\<close>

definition example_seller :: User where
  "example_seller = \<lparr>User.id = 1, role = ''vendor'', balance = 100, planId = Some 2\<rparr>"

definition example_affiliate :: User where
  "example_affiliate = \<lparr>User.id = 2, role = ''affiliate'', balance = 0, planId = Some 1\<rparr>"

definition example_admin :: User where
  "example_admin = \<lparr>User.id = 3, role = ''admin'', balance = 0, planId = None\<rparr>"

definition example_buyer :: User where
  "example_buyer = \<lparr>User.id = 4, role = ''buyer'', balance = 0, planId = Some 1\<rparr>"

definition example_product :: Product where
  "example_product =
     \<lparr>Product.id = 1, sellerId = 1, price = 100, commissionRate = 10,
      commissionType = ''percentage''\<rparr>"

definition flat_product :: Product where
  "flat_product =
     \<lparr>Product.id = 2, sellerId = 1, price = 10, commissionRate = 50,
      commissionType = ''fixed''\<rparr>"

definition used_coupon :: Coupon where
  "used_coupon =
     \<lparr>Coupon.id = 1, sellerId = 1, code = ''ONCE'', type = ''fixed'', val = 15,
      productId = Some 1, maxUsage = Some 1, usageCount = 1, expiresAt = None\<rparr>"

definition zero_coupon :: Coupon where
  "zero_coupon =
     \<lparr>Coupon.id = 2, sellerId = 1, code = ''ZERO'', type = ''percentage'', val = 20,
      productId = None, maxUsage = Some 0, usageCount = 0, expiresAt = None\<rparr>"

definition fresh_coupon :: Coupon where
  "fresh_coupon =
     \<lparr>Coupon.id = 3, sellerId = 1, code = ''FRESH'', type = ''percentage'', val = 20,
      productId = Some 1, maxUsage = Some 5, usageCount = 0, expiresAt = Some 2000\<rparr>"

definition example_store :: MemStorage where
  "example_store =
     new_MemStorage
       \<lparr>users := [(1, example_seller), (2, example_affiliate), (3, example_admin),
                  (4, example_buyer)],
        products := [(1, example_product), (2, flat_product)],
        coupons := [(1, used_coupon), (2, zero_coupon), (3, fresh_coupon)]\<rparr>"

text \<open>Payment events: product 1 bought through affiliate 2; the same with the
  seller as the affiliate; product 1 bought without an affiliate; product 2
  bought through affiliate 2.\<close>

definition example_event :: Event where
  "example_event =
     \<lparr>type = ''payment_intent.succeeded'',
      object = \<lparr>PaymentIntent.id = ''pi_1'', amount = 10000,
                metadata = \<lparr>productId = Num 1, buyerId = Num 4, sellerId = Num 1,
                             affiliateId = Some (Num 2)\<rparr>\<rparr>\<rparr>"

definition self_affiliate_event :: Event where
  "self_affiliate_event =
     \<lparr>type = ''payment_intent.succeeded'',
      object = \<lparr>PaymentIntent.id = ''pi_2'', amount = 10000,
                metadata = \<lparr>productId = Num 1, buyerId = Num 4, sellerId = Num 1,
                             affiliateId = Some (Num 1)\<rparr>\<rparr>\<rparr>"

definition direct_event :: Event where
  "direct_event =
     \<lparr>type = ''payment_intent.succeeded'',
      object = \<lparr>PaymentIntent.id = ''pi_3'', amount = 10000,
                metadata = \<lparr>productId = Num 1, buyerId = Num 4, sellerId = Num 1,
                             affiliateId = None\<rparr>\<rparr>\<rparr>"

definition flat_event :: Event where
  "flat_event =
     \<lparr>type = ''payment_intent.succeeded'',
      object = \<lparr>PaymentIntent.id = ''pi_4'', amount = 1000,
                metadata = \<lparr>productId = Num 2, buyerId = Num 4, sellerId = Num 1,
                             affiliateId = Some (Num 2)\<rparr>\<rparr>\<rparr>"

text \<open>The stores reached from the small marketplace: after the flat-commission
  sale; after one and after two deliveries of the same payment event; after
  the sale in which the seller is the affiliate; after the vendor has asked
  for a withdrawal of 30, and after an admin has rejected it once and twice.\<close>

definition flat_settled :: MemStorage where
  "flat_settled = snd (stripe_webhook example_store flat_event)"

definition settled_once :: MemStorage where
  "settled_once = snd (stripe_webhook example_store example_event)"

definition settled_twice :: MemStorage where
  "settled_twice = snd (stripe_webhook settled_once example_event)"

definition self_settled :: MemStorage where
  "self_settled = snd (stripe_webhook example_store self_affiliate_event)"

definition withdrawn :: MemStorage where
  "withdrawn = snd (post_withdrawals example_store (Some 1) 30)"

definition rejected_once :: MemStorage where
  "rejected_once = snd (put_withdrawal_status withdrawn (Some 3) (Num 1) ''rejected'' None)"

definition rejected_twice :: MemStorage where
  "rejected_twice = snd (put_withdrawal_status rejected_once (Some 3) (Num 1) ''rejected'' None)"

section \<open>Auxiliary notions for the proofs\<close>

text \<open>
  The sale record that a settlement stores, in closed form: the amounts as
  functions of the payment intent, the product and the plan alone. Lemma
  \<open>settle_sales\<close> below shows that \<open>settle\<close> stores exactly this record.
\<close>

definition sale_of :: "PaymentIntent \<Rightarrow> Product \<Rightarrow> Plan \<Rightarrow> int \<Rightarrow> Sale" where
  "sale_of paymentIntent product plan i =
     (let md = metadata paymentIntent;
          amt = of_int (PaymentIntent.amount paymentIntent) / 100;
          a = (if affiliate_present (Metadata.affiliateId md) then commission product amt else 0);
          fee = (amt - a) * (platformFeePercentage plan / 100)
      in \<lparr>Sale.id = i, productId = Metadata.productId md, buyerId = Metadata.buyerId md,
          sellerId = Metadata.sellerId md, affiliateId = Metadata.affiliateId md,
          amount = amt, sellerAmount = amt - a - fee, affiliateAmount = Some a,
          platformFee = fee, status = ''completed'', paymentMethod = ''stripe'',
          stripePaymentIntentId = Some (PaymentIntent.id paymentIntent)\<rparr>)"

text \<open>
  The coupon table as \<^verbatim>\<open>createCoupon\<close> fills it: every coupon sits under its own
  identifier, and no identifier occurs twice. A coupon is within its limit when
  it has no usage limit (\<^verbatim>\<open>null\<close>, or \<^verbatim>\<open>0\<close> as the payment handler reads it) or
  has not been used more often than the limit allows.
\<close>

definition wf_coupons :: "MemStorage \<Rightarrow> bool" where
  "wf_coupons st \<longleftrightarrow>
     distinct (map fst (coupons st)) \<and> list_all (\<lambda>(k, c). Coupon.id c = k) (coupons st)"

definition within_limit :: "Coupon \<Rightarrow> bool" where
  "within_limit c = (case maxUsage c of None \<Rightarrow> True | Some m \<Rightarrow> m = 0 \<or> usageCount c \<le> m)"

section \<open>Basic facts\<close>

lemmas example_defs = example_store_def new_MemStorage_def example_seller_def
  example_affiliate_def example_admin_def example_buyer_def example_product_def
  flat_product_def used_coupon_def zero_coupon_def fresh_coupon_def example_event_def
  self_affiliate_event_def direct_event_def flat_event_def

lemmas webhook_defs = stripe_webhook_def payment_succeeded_def settle_def affiliate_share_def
  commission_def seller_plan_id_def getUser_def getProduct_def getPlan_def updateUser_def
  createSale_def Let_def

lemmas route_defs = post_withdrawals_def put_withdrawal_status_def withdrawal_request_def
  withdrawal_status_update_def authenticate_def authorize_def createWithdrawal_def
  updateWithdrawalStatus_def updateUser_def getUser_def Let_def


subsection \<open>Association lists\<close>

lemma set_update_subset: "set (AList.update k v al) \<subseteq> insert (k, v) (set al)"
  by (induction al) auto

lemma find_values_mem:
  "find P (map snd al) = Some v \<Longrightarrow> \<exists>k. (k, v) \<in> set al \<and> P v"
  by (induction al) (auto split: if_splits)

subsection \<open>Rounding\<close>



subsection \<open>The settlement step by step\<close>

lemma affiliate_present_iff:
  "affiliate_present aff \<longleftrightarrow> (\<exists>a. aff = Some (Num a) \<and> a \<noteq> 0)"
  by (auto simp: affiliate_present_def split: option.splits jsnum.splits elim: truthy.elims)

lemma affiliate_share_amounts:
  "fst (affiliate_share st product amt aff) =
     (if affiliate_present aff then commission product amt else 0)"
  "fst (snd (affiliate_share st product amt aff)) =
     amt - (if affiliate_present aff then commission product amt else 0)"
  by (auto simp: affiliate_share_def affiliate_present_def Let_def
      split: option.splits jsnum.splits)

lemma affiliate_share_store:
  "products (snd (snd (affiliate_share st product amt aff))) = products st"
  "plans (snd (snd (affiliate_share st product amt aff))) = plans st"
  "sales (snd (snd (affiliate_share st product amt aff))) = sales st"
  "currentSaleId (snd (snd (affiliate_share st product amt aff))) = currentSaleId st"
  by (auto simp: affiliate_share_def updateUser_def getUser_def Let_def
      split: option.splits jsnum.splits)

text \<open>Crediting the affiliate changes at most the balance of the seller's
  record, and only when the two are the same user.\<close>

lemma affiliate_share_user:
  assumes "getUser st sid = Some seller"
  shows "\<exists>b. getUser (snd (snd (affiliate_share st product amt aff))) sid
               = Some (seller\<lparr>balance := b\<rparr>)"
proof -
  have triv: "\<exists>b. seller = seller\<lparr>balance := b\<rparr>"
    by (rule exI[of _ "balance seller"]) simp
  show ?thesis
    using assms triv
    by (auto simp: affiliate_share_def updateUser_def getUser_def Let_def update_conv'
        split: option.splits jsnum.splits)
qed

lemma settle_sales:
  "sales (settle st paymentIntent product sid seller plan) =
     AList.update (currentSaleId st)
       (sale_of paymentIntent product plan (currentSaleId st)) (sales st)"
  "currentSaleId (settle st paymentIntent product sid seller plan) = currentSaleId st + 1"
  "products (settle st paymentIntent product sid seller plan) = products st"
  "plans (settle st paymentIntent product sid seller plan) = plans st"
  by (simp_all add: settle_def sale_of_def Let_def split_beta createSale_def updateUser_def
       affiliate_share_amounts affiliate_share_store split: option.splits)

text \<open>Whatever the affiliate step did, the seller ends with the balance read at
  the start plus the seller's amount.\<close>

lemma settle_seller:
  assumes "getUser st sid = Some seller"
  shows "getUser (settle st paymentIntent product sid seller plan) sid =
     Some (seller\<lparr>balance := balance seller
        + Sale.sellerAmount (sale_of paymentIntent product plan (currentSaleId st))\<rparr>)"
proof -
  obtain b where b: "getUser (snd (snd (affiliate_share st product
       (of_int (PaymentIntent.amount paymentIntent) / 100)
       (Metadata.affiliateId (metadata paymentIntent))))) sid = Some (seller\<lparr>balance := b\<rparr>)"
    using affiliate_share_user[OF assms] by blast
  show ?thesis
    using b
    by (simp add: settle_def sale_of_def Let_def split_beta createSale_def updateUser_def
        getUser_def affiliate_share_amounts update_conv')
qed

lemma sale_of_fields:
  "Sale.id (sale_of paymentIntent product plan i) = i"
  "stripePaymentIntentId (sale_of paymentIntent product plan i)
     = Some (PaymentIntent.id paymentIntent)"
  "Sale.sellerAmount (sale_of paymentIntent product plan i)
     = Sale.sellerAmount (sale_of paymentIntent product plan j)"
  by (simp_all add: sale_of_def Let_def)

text \<open>Stored in the document store, the sale of a settlement without an
  affiliate has no affiliate amount (\<^verbatim>\<open>null\<close>) where the in-memory store has
  \<open>0\<close>; the other amounts are the same, and they add up when \<^verbatim>\<open>null\<close> is read as
  \<open>0\<close>.\<close>

lemma createSale_mongo_amounts:
  "Sale.affiliateAmount (fst (createSale_mongo docs n (sale_of paymentIntent product plan)))
     = (if Sale.affiliateAmount (sale_of paymentIntent product plan n) = Some 0 then None
        else Sale.affiliateAmount (sale_of paymentIntent product plan n))"
  "Sale.amount (fst (createSale_mongo docs n (sale_of paymentIntent product plan)))
     = Sale.sellerAmount (fst (createSale_mongo docs n (sale_of paymentIntent product plan)))
       + (case Sale.affiliateAmount
                 (fst (createSale_mongo docs n (sale_of paymentIntent product plan))) of
            None \<Rightarrow> 0 | Some a \<Rightarrow> a)
       + Sale.platformFee (fst (createSale_mongo docs n (sale_of paymentIntent product plan)))"
  by (simp_all add: createSale_mongo_def sale_of_def Let_def)

lemma payment_succeeded_ok:
  assumes "payment_succeeded st paymentIntent = ((200, b), st1)"
  shows "\<exists>pid product sid seller plan.
           Metadata.productId (metadata paymentIntent) = Num pid
         \<and> getProduct st pid = Some product
         \<and> Metadata.sellerId (metadata paymentIntent) = Num sid
         \<and> getUser st sid = Some seller
         \<and> getPlan st (seller_plan_id seller) = Some plan
         \<and> st1 = settle st paymentIntent product sid seller plan"
  using assms
  by (auto simp: payment_succeeded_def split: jsnum.splits option.splits)

lemma webhook_settles:
  assumes "Event.type ev = ''payment_intent.succeeded''"
    and "stripe_webhook st ev = ((200, Received), st1)"
    and "Metadata.productId (metadata (object ev)) = Num pid"
    and "getProduct st pid = Some product"
    and "Metadata.sellerId (metadata (object ev)) = Num sid"
    and "getUser st sid = Some seller"
    and "getPlan st (seller_plan_id seller) = Some plan"
  shows "st1 = settle st (object ev) product sid seller plan"
  using assms by (simp add: stripe_webhook_def payment_succeeded_def)

subsection \<open>The small marketplace\<close>

lemma example_lookups:
  "Event.type example_event = ''payment_intent.succeeded''"
  "Metadata.productId (metadata (object example_event)) = Num 1"
  "getProduct example_store 1 = Some example_product"
  "Metadata.sellerId (metadata (object example_event)) = Num 1"
  "getUser example_store 1 = Some example_seller"
  "getPlan example_store (seller_plan_id example_seller)
     = Some \<lparr>Plan.id = 2, name = ''Start'', platformFeePercentage = 5\<rparr>"
  "affiliate_present (Metadata.affiliateId (metadata (object example_event)))"
  "currentSaleId example_store = 1"
  "sales example_store = []"
  by (simp_all add: example_defs getProduct_def getUser_def getPlan_def seller_plan_id_def
      affiliate_present_def)

lemma example_settled:
  "stripe_webhook example_store example_event = ((200, Received), settled_once)"
  by (simp add: settled_once_def stripe_webhook_def payment_succeeded_def example_lookups)

lemma example_values:
  "commissionType example_product = ''percentage''"
  "commissionRate example_product = 10"
  "PaymentIntent.amount (object example_event) = 10000"
  by (simp_all add: example_product_def example_event_def)

lemma self_lookups:
  "Event.type self_affiliate_event = ''payment_intent.succeeded''"
  "Metadata.productId (metadata (object self_affiliate_event)) = Num 1"
  "Metadata.sellerId (metadata (object self_affiliate_event)) = Num 1"
  "Metadata.affiliateId (metadata (object self_affiliate_event)) = Some (Num 1)"
  "PaymentIntent.amount (object self_affiliate_event) = 10000"
  by (simp_all add: self_affiliate_event_def)

lemma self_settled_ok:
  "stripe_webhook example_store self_affiliate_event = ((200, Received), self_settled)"
  by (simp add: self_settled_def stripe_webhook_def payment_succeeded_def self_lookups
      example_lookups)

subsection \<open>Coupon usage\<close>

lemma incrementCouponUsage_mongo_found:
  "find (\<lambda>c. Coupon.id c = i) cs = Some c \<Longrightarrow>
     fst (incrementCouponUsage_mongo cs i) = Some (c\<lparr>usageCount := usageCount c + 1\<rparr>)"
  by (induction cs) (auto simp: Let_def split_beta)

lemma incrementCouponUsage_mongo_after:
  "find (\<lambda>c. Coupon.id c = i) cs = Some c \<Longrightarrow>
     find (\<lambda>c. Coupon.id c = i) (snd (incrementCouponUsage_mongo cs i))
       = Some (c\<lparr>usageCount := usageCount c + 1\<rparr>)"
  by (induction cs) (auto simp: Let_def split_beta)

text \<open>The payment handler increments a coupon only after it has seen that the
  coupon has a use left, so it keeps every coupon within its limit.\<close>

lemma payment_amount_within_limit:
  assumes wf: "wf_coupons st" and inv: "list_all (within_limit \<circ> snd) (coupons st)"
  shows "list_all (within_limit \<circ> snd)
           (coupons (snd (payment_amount st product couponCode now)))"
proof (cases "\<exists>c coupon. couponCode = Some c \<and> c \<noteq> [] \<and> getCouponByCode st c = Some coupon
                \<and> coupon_applies coupon product now")
  case False
  then have "snd (payment_amount st product couponCode now) = st"
    by (auto simp: payment_amount_def split: option.splits)
  then show ?thesis using inv by simp
next
  case True
  then obtain c coupon where c: "couponCode = Some c" "c \<noteq> []"
    "getCouponByCode st c = Some coupon" "coupon_applies coupon product now" by blast
  from c(3) obtain k where k: "(k, coupon) \<in> set (coupons st)"
    unfolding getCouponByCode_def using find_values_mem by fastforce
  with wf have kid: "Coupon.id coupon = k"
    by (auto simp: wf_coupons_def list_all_iff)
  from wf k have look: "map_of (coupons st) (Coupon.id coupon) = Some coupon"
    unfolding kid by (simp add: wf_coupons_def)
  let ?c' = "coupon\<lparr>usageCount := usageCount coupon + 1\<rparr>"
  have st': "coupons (snd (payment_amount st product couponCode now))
      = AList.update (Coupon.id coupon) ?c' (coupons st)"
    using c look by (simp add: payment_amount_def incrementCouponUsage_def Let_def)
  have "within_limit ?c'"
    using c(4) by (auto simp: within_limit_def coupon_applies_def split: option.splits)
  then show ?thesis
    unfolding st' using inv set_update_subset[of "Coupon.id coupon" ?c' "coupons st"]
    by (auto simp: list_all_iff)
qed

subsection \<open>A withdrawal that is requested and then rejected\<close>

text \<open>The amount credited at the rejection is the amount debited at the
  request: the owner is back at the record held before the request.\<close>

lemma request_then_reject:
  assumes "uid \<noteq> 0" and "getUser st uid = Some user" and "User.id user = uid"
    and "role user = ''vendor'' \<or> role user = ''affiliate''"
    and "20 \<le> amt" and "amt \<le> balance user"
    and "aid \<noteq> 0" and "getUser st aid = Some admin" and "role admin = ''admin''"
  shows "getUser (snd (put_withdrawal_status (snd (post_withdrawals st (Some uid) amt))
                         (Some aid) (Num (currentWithdrawalId st)) ''rejected'' t)) uid
         = Some user"
proof -
  have ne: "aid \<noteq> uid" using assms(2,4,8,9) by auto
  show ?thesis
    using assms ne
    by (auto simp: route_defs update_conv' split: option.splits)
qed

section \<open>Settlement\<close>





text \<open>
  Claim C3, as stated: the affiliate amount is the raw commission times \<open>0.96\<close>
  clamped into \<open>[0, amount]\<close>. The handler does not clamp. For product 2 (price
  10, flat commission 50) the sale records an affiliate amount of \<open>48\<close>, where
  the clamped value is \<open>10\<close>, and a negative seller amount.
\<close>

theorem commission_clamp_counterexample:
  "affiliate_present (Metadata.affiliateId (metadata (object flat_event)))
   \<and> fst (stripe_webhook example_store flat_event) = (200, Received)
   \<and> map_of (sales flat_settled) 1 =
       Some \<lparr>Sale.id = 1, productId = Num 2, buyerId = Num 4, sellerId = Num 1,
             affiliateId = Some (Num 2), amount = 10, sellerAmount = - 36.1,
             affiliateAmount = Some 48, platformFee = - 1.9, status = ''completed'',
             paymentMethod = ''stripe'', stripePaymentIntentId = Some ''pi_4''\<rparr>
   \<and> spec_clamp (commissionRate flat_product * 0.96) 0 10 = 10
   \<and> Some (spec_clamp (commissionRate flat_product * 0.96) 0 10) \<noteq> (Some 48 :: rat option)"
  by (simp add: flat_settled_def example_defs webhook_defs affiliate_present_def spec_clamp_def)

text \<open>
  Claim C3, amended: the affiliate amount is the raw commission times \<open>0.96\<close>,
  unclamped. For a charge that is not negative it equals the clamped value
  exactly when it already lies in \<open>[0, amount]\<close>; this is so for every
  percentage commission with a rate between 0 and 100.
\<close>

theorem commission_unclamped:
  assumes "Event.type ev = ''payment_intent.succeeded''"
    and "stripe_webhook st ev = ((200, Received), st1)"
    and "Metadata.productId (metadata (object ev)) = Num pid"
    and "getProduct st pid = Some product"
    and "Metadata.sellerId (metadata (object ev)) = Num sid"
    and "getUser st sid = Some seller"
    and "getPlan st (seller_plan_id seller) = Some plan"
    and "affiliate_present (Metadata.affiliateId (metadata (object ev)))"
    and "0 \<le> PaymentIntent.amount (object ev)"
  shows "\<exists>s. sales st1 = AList.update (currentSaleId st) s (sales st)
          \<and> (let grossAmount = of_int (PaymentIntent.amount (object ev)) / 100;
                  rawCommission =
                    (if commissionType product = ''percentage''
                     then grossAmount * commissionRate product / 100
                     else commissionRate product)
              in Sale.affiliateAmount s = Some (rawCommission * 0.96)
               \<and> (Sale.affiliateAmount s = Some (spec_clamp (rawCommission * 0.96) 0 grossAmount)
                    \<longleftrightarrow> 0 \<le> rawCommission * 0.96 \<and> rawCommission * 0.96 \<le> grossAmount)
               \<and> (commissionType product = ''percentage''
                    \<and> 0 \<le> commissionRate product \<and> commissionRate product \<le> 100
                   \<longrightarrow> Sale.affiliateAmount s
                         = Some (spec_clamp (rawCommission * 0.96) 0 grossAmount)))"
proof -
  have st1: "st1 = settle st (object ev) product sid seller plan"
    using assms(1-7) by (rule webhook_settles)
  let ?s = "sale_of (object ev) product plan (currentSaleId st)"
  let ?gross = "of_int (PaymentIntent.amount (object ev)) / 100 :: rat"
  let ?raw = "if commissionType product = ''percentage''
              then ?gross * commissionRate product / 100 else commissionRate product"
  have g: "0 \<le> ?gross" using assms(9) by simp
  have comm: "commission product ?gross = ?raw * 0.96"
    by (simp add: commission_def Let_def algebra_simps)
  have sl: "sales st1 = AList.update (currentSaleId st) ?s (sales st)"
    by (simp add: st1 settle_sales)
  have af: "Sale.affiliateAmount ?s = Some (?raw * 0.96)"
    unfolding comm[symmetric] using assms(8) by (simp add: sale_of_def Let_def)
  have cl: "(x = spec_clamp x 0 ?gross) \<longleftrightarrow> (0 \<le> x \<and> x \<le> ?gross)" for x
    using g by (auto simp: spec_clamp_def min_def max_def)
  have pc: "0 \<le> ?raw * 0.96 \<and> ?raw * 0.96 \<le> ?gross"
    if "commissionType product = ''percentage''" "0 \<le> commissionRate product"
      "commissionRate product \<le> 100"
  proof -
    have r: "?raw = ?gross * (commissionRate product / 100)" using that by simp
    have c: "0 \<le> commissionRate product / 100" "commissionRate product / 100 \<le> 1"
      using that by simp_all
    have lo: "0 \<le> ?gross * (commissionRate product / 100)"
      using g c(1) by (rule mult_nonneg_nonneg)
    have hi: "?gross * (commissionRate product / 100) \<le> ?gross"
      using c(2) g by (rule mult_left_le)
    have sc: "0 \<le> x * 0.96 \<and> x * 0.96 \<le> x" if "0 \<le> x" for x :: rat
      using that by simp
    show ?thesis
      unfolding r using sc[OF lo] hi by linarith
  qed
  show ?thesis
    unfolding Let_def
    apply (rule exI[of _ ?s])
    apply (simp only: sl af option.inject)
    using cl[of "?raw * 0.96"] pc by blast
qed

text \<open>The 10% commission on the sale of 100: \<open>9.6\<close>, which is its own clamped value.\<close>

theorem commission_unclamped_witness:
  "Event.type example_event = ''payment_intent.succeeded''
   \<and> stripe_webhook example_store example_event = ((200, Received), settled_once)
   \<and> affiliate_present (Metadata.affiliateId (metadata (object example_event)))
   \<and> 0 \<le> PaymentIntent.amount (object example_event)
   \<and> commissionType example_product = ''percentage''
   \<and> 0 \<le> commissionRate example_product \<and> commissionRate example_product \<le> 100
   \<and> (\<exists>s. sales settled_once = [(1, s)]
         \<and> Sale.affiliateAmount s = Some 9.6
         \<and> Sale.affiliateAmount s = Some (spec_clamp 9.6 0 100))"
proof -
  have nn: "0 \<le> PaymentIntent.amount (object example_event)"
    by (simp add: example_values)
  show ?thesis
    using commission_unclamped[OF example_lookups(1) example_settled example_lookups(2-7) nn]
      example_lookups example_settled example_values
    by (simp add: Let_def)
qed

text \<open>
  Claim C10. When the affiliate of a settled payment is the seller, the user
  ends with the balance read at the start plus the seller amount only: the
  seller's balance is written from the record read before the affiliate credit,
  which is thereby overwritten. The sale still records both the seller amount
  and the affiliate amount.
\<close>

theorem self_affiliate_credit_lost:
  assumes "Event.type ev = ''payment_intent.succeeded''"
    and "stripe_webhook st ev = ((200, Received), st1)"
    and "Metadata.productId (metadata (object ev)) = Num pid"
    and "getProduct st pid = Some product"
    and "Metadata.sellerId (metadata (object ev)) = Num sid"
    and "getUser st sid = Some seller"
    and "getPlan st (seller_plan_id seller) = Some plan"
    and "Metadata.affiliateId (metadata (object ev)) = Some (Num sid)"
    and "sid \<noteq> 0"
  shows "\<exists>s a. sales st1 = AList.update (currentSaleId st) s (sales st)
          \<and> Sale.affiliateAmount s = Some a
          \<and> a = commission product (of_int (PaymentIntent.amount (object ev)) / 100)
          \<and> getUser st1 sid = Some (seller\<lparr>balance := balance seller + Sale.sellerAmount s\<rparr>)
          \<and> (a \<noteq> 0 \<longrightarrow> map_option balance (getUser st1 sid)
                 \<noteq> Some (balance seller + Sale.sellerAmount s + a))"
proof -
  have st1: "st1 = settle st (object ev) product sid seller plan"
    using assms(1-7) by (rule webhook_settles)
  let ?s = "sale_of (object ev) product plan (currentSaleId st)"
  have p: "affiliate_present (Metadata.affiliateId (metadata (object ev)))"
    using assms(8,9) by (simp add: affiliate_present_def)
  have sl: "sales st1 = AList.update (currentSaleId st) ?s (sales st)"
    by (simp add: st1 settle_sales)
  have af: "Sale.affiliateAmount ?s
      = Some (commission product (of_int (PaymentIntent.amount (object ev)) / 100))"
    using p by (simp add: sale_of_def Let_def)
  have u: "getUser st1 sid = Some (seller\<lparr>balance := balance seller + Sale.sellerAmount ?s\<rparr>)"
    unfolding st1 using assms(6) by (rule settle_seller)
  show ?thesis
    using sl af u by (intro exI[of _ ?s]) simp
qed

text \<open>The vendor of the small marketplace sells product 1 as its own
  affiliate: the sale records \<open>85.88\<close> for the seller and \<open>9.6\<close> for the
  affiliate, and the balance goes from \<open>100\<close> to \<open>185.88\<close>.\<close>

theorem self_affiliate_credit_lost_witness:
  "Event.type self_affiliate_event = ''payment_intent.succeeded''
   \<and> stripe_webhook example_store self_affiliate_event = ((200, Received), self_settled)
   \<and> Metadata.sellerId (metadata (object self_affiliate_event)) = Num 1
   \<and> Metadata.affiliateId (metadata (object self_affiliate_event)) = Some (Num 1)
   \<and> balance example_seller = 100
   \<and> (\<exists>s. sales self_settled = [(1, s)]
         \<and> Sale.affiliateAmount s = Some 9.6
         \<and> Sale.sellerAmount s = 85.88
         \<and> map_option balance (getUser self_settled 1) = Some 185.88)"
proof -
  have b: "balance example_seller = 100"
    by (simp add: example_seller_def)
  have c: "commission example_product (of_int 10000 / 100) = 9.6"
    by (simp add: commission_def example_product_def)
  have n: "(1::int) \<noteq> 0" by simp
  obtain s a where s:
    "sales self_settled = AList.update (currentSaleId example_store) s (sales example_store)"
    "Sale.affiliateAmount s = Some a"
    "a = commission example_product
           (of_int (PaymentIntent.amount (object self_affiliate_event)) / 100)"
    "getUser self_settled 1
       = Some (example_seller\<lparr>balance := balance example_seller + Sale.sellerAmount s\<rparr>)"
    using self_affiliate_credit_lost[OF self_lookups(1) self_settled_ok self_lookups(2)
        example_lookups(3) self_lookups(3) example_lookups(5,6) self_lookups(4) n]
    by auto
  have one: "sales self_settled = [(1, s)]"
    using s(1) by (simp add: example_lookups)
  then have sa: "Sale.sellerAmount s = 85.88"
    by (auto simp: self_settled_def example_defs webhook_defs)
  have af: "Sale.affiliateAmount s = Some 9.6"
    using s(2,3) c by (simp add: self_lookups)
  have bal: "map_option balance (getUser self_settled 1) = Some 185.88"
    by (simp add: s(4) sa b)
  show ?thesis
    using one sa af bal b self_lookups self_settled_ok by blast
qed

text \<open>
  Claim C5, as stated: two deliveries of the same payment event leave one sale
  and one credit. The handler never looks for a sale with the same payment
  reference. Delivered twice, the event of the small marketplace leaves two
  sales with the reference \<^verbatim>\<open>pi_1\<close>, and the seller and the affiliate are
  credited twice.
\<close>

theorem double_settlement_counterexample:
  "fst (stripe_webhook example_store example_event) = (200, Received)
   \<and> fst (stripe_webhook settled_once example_event) = (200, Received)
   \<and> map (stripePaymentIntentId \<circ> snd) (sales settled_twice) = [Some ''pi_1'', Some ''pi_1'']
   \<and> map (balance \<circ> snd) (users example_store) = [100, 0, 0, 0]
   \<and> map (balance \<circ> snd) (users settled_once) = [185.88, 9.6, 0, 0]
   \<and> map (balance \<circ> snd) (users settled_twice) = [271.76, 19.2, 0, 0]"
  by (simp add: settled_twice_def settled_once_def example_defs webhook_defs)

text \<open>
  Claim C5, amended: every delivery of a \<^verbatim>\<open>payment_intent.succeeded\<close> event is
  settled on its own. After a delivery that was settled, a second delivery of
  the same event is settled as well: the store then holds two distinct sales
  with that payment reference, and the seller's balance has grown by twice the
  seller amount.
\<close>

theorem redelivery_settles_again:
  assumes "Event.type ev = ''payment_intent.succeeded''"
    and "stripe_webhook st ev = ((200, Received), st1)"
    and "Metadata.sellerId (metadata (object ev)) = Num sid"
    and "getUser st sid = Some seller"
  shows "\<exists>st2 s1 s2.
           stripe_webhook st1 ev = ((200, Received), st2)
         \<and> map_of (sales st2) (currentSaleId st) = Some s1
         \<and> map_of (sales st2) (currentSaleId st + 1) = Some s2
         \<and> Sale.id s1 \<noteq> Sale.id s2
         \<and> stripePaymentIntentId s1 = Some (PaymentIntent.id (object ev))
         \<and> stripePaymentIntentId s2 = Some (PaymentIntent.id (object ev))
         \<and> map_option balance (getUser st2 sid)
             = Some (balance seller + 2 * Sale.sellerAmount s1)"
proof -
  from assms(1,2) have ok: "payment_succeeded st (object ev) = ((200, Received), st1)"
    by (simp add: stripe_webhook_def)
  then obtain pid product sid' seller' plan
    where f: "Metadata.productId (metadata (object ev)) = Num pid"
      "getProduct st pid = Some product"
      "Metadata.sellerId (metadata (object ev)) = Num sid'"
      "getUser st sid' = Some seller'"
      "getPlan st (seller_plan_id seller') = Some plan"
      "st1 = settle st (object ev) product sid' seller' plan"
    using payment_succeeded_ok by blast
  from f(3,4) assms(3,4) have same: "sid' = sid" "seller' = seller" by simp_all
  note f = f[unfolded same]
  let ?n = "currentSaleId st"
  let ?s1 = "sale_of (object ev) product plan ?n"
  let ?s2 = "sale_of (object ev) product plan (?n + 1)"
  let ?u1 = "seller\<lparr>balance := balance seller + Sale.sellerAmount ?s1\<rparr>"
  let ?st2 = "settle st1 (object ev) product sid ?u1 plan"
  have u1: "getUser st1 sid = Some ?u1"
    unfolding f(6) using f(4) by (rule settle_seller)
  have p1: "getProduct st1 pid = Some product"
    using f(2) by (simp add: f(6) getProduct_def settle_sales)
  have pl1: "getPlan st1 (seller_plan_id ?u1) = Some plan"
    using f(5) by (simp add: f(6) getPlan_def settle_sales seller_plan_id_def)
  have n1: "currentSaleId st1 = ?n + 1"
    by (simp add: f(6) settle_sales)
  have second: "stripe_webhook st1 ev = ((200, Received), ?st2)"
    using assms(1) f(1,3) u1 p1 pl1
    by (simp add: stripe_webhook_def payment_succeeded_def)
  have sales2: "sales ?st2 = AList.update (?n + 1) ?s2 (AList.update ?n ?s1 (sales st))"
    by (simp add: settle_sales n1) (simp add: f(6) settle_sales)
  have m1: "map_of (sales ?st2) ?n = Some ?s1"
    by (simp add: sales2 update_conv')
  have m2: "map_of (sales ?st2) (?n + 1) = Some ?s2"
    by (simp add: sales2 update_conv')
  have u2: "getUser ?st2 sid
      = Some (?u1\<lparr>balance := balance ?u1
           + Sale.sellerAmount (sale_of (object ev) product plan (currentSaleId st1))\<rparr>)"
    using u1 by (rule settle_seller)
  have b2: "map_option balance (getUser ?st2 sid)
      = Some (balance seller + 2 * Sale.sellerAmount ?s1)"
    unfolding u2 by (simp add: sale_of_fields(3)[of _ _ _ "currentSaleId st1" ?n])
  show ?thesis
    using second m1 m2 b2 sale_of_fields(1,2)
    by (intro exI[of _ ?st2] exI[of _ ?s1] exI[of _ ?s2]) simp
qed

text \<open>The event of the small marketplace, delivered again after it was settled.\<close>

theorem redelivery_settles_again_witness:
  "Event.type example_event = ''payment_intent.succeeded''
   \<and> stripe_webhook example_store example_event = ((200, Received), settled_once)
   \<and> Metadata.sellerId (metadata (object example_event)) = Num 1
   \<and> getUser example_store 1 = Some example_seller
   \<and> (\<exists>st2 s1 s2.
           stripe_webhook settled_once example_event = ((200, Received), st2)
         \<and> map_of (sales st2) 1 = Some s1
         \<and> map_of (sales st2) 2 = Some s2
         \<and> Sale.id s1 \<noteq> Sale.id s2
         \<and> stripePaymentIntentId s1 = Some ''pi_1''
         \<and> stripePaymentIntentId s2 = Some ''pi_1''
         \<and> map_option balance (getUser st2 1)
             = Some (balance example_seller + 2 * Sale.sellerAmount s1))"
proof -
  have i: "PaymentIntent.id (object example_event) = ''pi_1''"
    by (simp add: example_event_def)
  show ?thesis
    using redelivery_settles_again[OF example_lookups(1) example_settled example_lookups(4,5)]
      example_lookups example_settled i
    by simp
qed

section \<open>Coupons\<close>




text \<open>
  Claim C9, as stated: \<^verbatim>\<open>incrementCouponUsage\<close> fails once the usage count has
  reached the limit, so the count never exceeds it. Neither store looks at the
  limit: the coupon \<^verbatim>\<open>ONCE\<close>, used once with a limit of one use, is incremented
  to a count of two.
\<close>

theorem increment_counterexample:
  "map_of (coupons example_store) 1 = Some used_coupon
   \<and> maxUsage used_coupon = Some 1 \<and> usageCount used_coupon = 1
   \<and> fst (incrementCouponUsage example_store 1) = Some (used_coupon\<lparr>usageCount := 2\<rparr>)
   \<and> map_of (coupons (snd (incrementCouponUsage example_store 1))) 1
       = Some (used_coupon\<lparr>usageCount := 2\<rparr>)
   \<and> incrementCouponUsage_mongo [used_coupon] 1
       = (Some (used_coupon\<lparr>usageCount := 2\<rparr>), [used_coupon\<lparr>usageCount := 2\<rparr>])"
  by (simp add: example_defs incrementCouponUsage_def Let_def)

text \<open>
  Claim C9, amended: in both stores \<^verbatim>\<open>incrementCouponUsage\<close> adds one to the usage
  count of every coupon that exists, whatever its limit. The limit is checked by
  the caller: the payment handler increments a coupon only when it has a use
  left, so a step of that handler on a well-formed coupon table keeps every
  coupon within its limit (a limit of \<open>0\<close> counting as none).
\<close>

theorem increment_is_unconditional:
  assumes "map_of (coupons st) i = Some coupon"
    and "find (\<lambda>c. Coupon.id c = i) cs = Some doc"
  shows "fst (incrementCouponUsage st i) = Some (coupon\<lparr>usageCount := usageCount coupon + 1\<rparr>)
       \<and> map_of (coupons (snd (incrementCouponUsage st i))) i
           = Some (coupon\<lparr>usageCount := usageCount coupon + 1\<rparr>)
       \<and> fst (incrementCouponUsage_mongo cs i) = Some (doc\<lparr>usageCount := usageCount doc + 1\<rparr>)
       \<and> find (\<lambda>c. Coupon.id c = i) (snd (incrementCouponUsage_mongo cs i))
           = Some (doc\<lparr>usageCount := usageCount doc + 1\<rparr>)
       \<and> (wf_coupons st \<and> list_all (within_limit \<circ> snd) (coupons st) \<longrightarrow>
            list_all (within_limit \<circ> snd)
              (coupons (snd (payment_amount st product couponCode now))))"
  using assms incrementCouponUsage_mongo_found[of i cs doc]
    incrementCouponUsage_mongo_after[of i cs doc]
    payment_amount_within_limit[of st product couponCode now]
  by (simp add: incrementCouponUsage_def Let_def update_conv')

text \<open>The coupon \<^verbatim>\<open>ONCE\<close> in both stores, and a payment with the coupon \<^verbatim>\<open>FRESH\<close>.\<close>

theorem increment_is_unconditional_witness:
  "map_of (coupons example_store) 1 = Some used_coupon
   \<and> find (\<lambda>c. Coupon.id c = 1) [used_coupon] = Some used_coupon
   \<and> wf_coupons example_store
   \<and> list_all (within_limit \<circ> snd) (coupons example_store)
   \<and> usageCount used_coupon = 1
   \<and> map_option usageCount (fst (incrementCouponUsage example_store 1)) = Some 2
   \<and> map_option usageCount (fst (incrementCouponUsage_mongo [used_coupon] 1)) = Some 2
   \<and> list_all (within_limit \<circ> snd)
        (coupons (snd (payment_amount example_store example_product (Some ''FRESH'') 1000)))"
proof -
  have m: "map_of (coupons example_store) 1 = Some used_coupon"
    by (simp add: example_defs)
  have f: "find (\<lambda>c. Coupon.id c = 1) [used_coupon] = Some used_coupon"
    by (simp add: used_coupon_def)
  have wf: "wf_coupons example_store"
    by (simp add: wf_coupons_def example_defs)
  have inv: "list_all (within_limit \<circ> snd) (coupons example_store)"
    by (simp add: within_limit_def example_defs)
  have u: "usageCount used_coupon = 1"
    by (simp add: used_coupon_def)
  show ?thesis
    using increment_is_unconditional[OF m f, of example_product "Some ''FRESH''" 1000]
      m f wf inv u
    by simp
qed

section \<open>Withdrawals\<close>



text \<open>
  Claim C7. When an admin sets a pending withdrawal to \<^verbatim>\<open>rejected\<close>, the owner's
  balance grows by the amount stored in the withdrawal, which is the amount
  debited at the request; setting it to \<^verbatim>\<open>completed\<close> changes no user.
\<close>

theorem rejection_restores_amount:
  assumes "sess = Some aid" and "aid \<noteq> 0" and "getUser st aid = Some admin"
    and "role admin = ''admin''"
    and "map_of (withdrawals st) wid = Some w"
    and "Withdrawal.status w = ''pending''"
    and "getUser st (userId w) = Some user"
    and "User.id user = userId w"
  shows "getUser (snd (put_withdrawal_status st sess (Num wid) ''rejected'' t)) (userId w)
           = Some (user\<lparr>balance := balance user + Withdrawal.amount w\<rparr>)
       \<and> fst (fst (put_withdrawal_status st sess (Num wid) ''rejected'' t)) = 200
       \<and> users (snd (put_withdrawal_status st sess (Num wid) ''completed'' t)) = users st
       \<and> fst (fst (put_withdrawal_status st sess (Num wid) ''completed'' t)) = 200"
  using assms
  by (auto simp: route_defs update_conv' split: option.splits)

text \<open>The vendor's withdrawal of 30 is rejected: the balance returns from 70 to
  100. Completed instead, it leaves the users as they are.\<close>

theorem rejection_restores_amount_witness:
  "getUser withdrawn 3 = Some example_admin
   \<and> role example_admin = ''admin''
   \<and> map_of (withdrawals withdrawn) 1
       = Some \<lparr>Withdrawal.id = 1, userId = 1, amount = 30, status = ''pending'',
               stripeTransferId = None\<rparr>
   \<and> getUser withdrawn 1 = Some (example_seller\<lparr>balance := 70\<rparr>)
   \<and> getUser (snd (put_withdrawal_status withdrawn (Some 3) (Num 1) ''rejected'' None)) 1
       = Some (example_seller\<lparr>balance := 100\<rparr>)
   \<and> users (snd (put_withdrawal_status withdrawn (Some 3) (Num 1) ''completed'' None))
       = users withdrawn"
proof -
  let ?w = "\<lparr>Withdrawal.id = 1, userId = 1, amount = 30, status = ''pending'',
               stripeTransferId = None\<rparr>"
  have a: "getUser withdrawn 3 = Some example_admin"
    by (simp add: withdrawn_def example_defs route_defs)
  have r: "role example_admin = ''admin''"
    by (simp add: example_admin_def)
  have w: "map_of (withdrawals withdrawn) 1 = Some ?w"
    by (simp add: withdrawn_def example_defs route_defs)
  have u: "getUser withdrawn (userId ?w) = Some (example_seller\<lparr>balance := 70\<rparr>)"
    by (simp add: withdrawn_def example_defs route_defs)
  have i: "User.id (example_seller\<lparr>balance := 70\<rparr>) = userId ?w"
    by (simp add: example_seller_def)
  show ?thesis
    using rejection_restores_amount[OF refl _ a r w _ u i, of None] a r w u
    by simp
qed

text \<open>
  Claim C8, as stated: a withdrawal leaves \<^verbatim>\<open>pending\<close> once, for \<^verbatim>\<open>completed\<close> or
  \<^verbatim>\<open>rejected\<close>, and is never changed after that. The handler does not look at
  the current status. The vendor's withdrawal of 30 is rejected twice, each
  time with the answer 200 and a credit of 30, so that the balance ends at 130
  where it began at 100; after that it is set back to \<^verbatim>\<open>pending\<close>.
\<close>

theorem withdrawal_rejected_twice_counterexample:
  "fst (post_withdrawals example_store (Some 1) 30)
     = (201, WithdrawalJson \<lparr>Withdrawal.id = 1, userId = 1, amount = 30, status = ''pending'',
                              stripeTransferId = None\<rparr>)
   \<and> map (balance \<circ> snd) (users example_store) = [100, 0, 0, 0]
   \<and> map (balance \<circ> snd) (users withdrawn) = [70, 0, 0, 0]
   \<and> fst (fst (put_withdrawal_status withdrawn (Some 3) (Num 1) ''rejected'' None)) = 200
   \<and> map (Withdrawal.status \<circ> snd) (withdrawals rejected_once) = [''rejected'']
   \<and> map (balance \<circ> snd) (users rejected_once) = [100, 0, 0, 0]
   \<and> fst (fst (put_withdrawal_status rejected_once (Some 3) (Num 1) ''rejected'' None)) = 200
   \<and> map (balance \<circ> snd) (users rejected_twice) = [130, 0, 0, 0]
   \<and> fst (fst (put_withdrawal_status rejected_twice (Some 3) (Num 1) ''pending'' None)) = 200
   \<and> map (Withdrawal.status \<circ> snd)
        (withdrawals (snd (put_withdrawal_status rejected_twice (Some 3) (Num 1)
                             ''pending'' None)))
       = [''pending'']"
  by (simp add: rejected_twice_def rejected_once_def withdrawn_def example_defs route_defs)

text \<open>
  Claim C8, amended: an admin can set the status of any existing withdrawal to
  any of \<^verbatim>\<open>pending\<close>, \<^verbatim>\<open>completed\<close> and \<^verbatim>\<open>rejected\<close>, whatever its current status
  is: the request is answered with 200 and the withdrawal then has the status
  asked for.
\<close>

theorem withdrawal_status_unguarded:
  assumes "sess = Some aid" and "aid \<noteq> 0" and "getUser st aid = Some admin"
    and "role admin = ''admin''"
    and "map_of (withdrawals st) wid = Some w"
    and "target \<in> {''pending'', ''completed'', ''rejected''}"
  shows "fst (fst (put_withdrawal_status st sess (Num wid) target t)) = 200
       \<and> map_option Withdrawal.status
           (map_of (withdrawals (snd (put_withdrawal_status st sess (Num wid) target t))) wid)
           = Some target"
  using assms
  by (auto simp: route_defs update_conv' split: option.splits)

text \<open>The withdrawal that was rejected is set to \<^verbatim>\<open>completed\<close>.\<close>

theorem withdrawal_status_unguarded_witness:
  "getUser rejected_once 3 = Some example_admin
   \<and> role example_admin = ''admin''
   \<and> map_option Withdrawal.status (map_of (withdrawals rejected_once) 1) = Some ''rejected''
   \<and> ''completed'' \<in> {''pending'', ''completed'', ''rejected''}
   \<and> fst (fst (put_withdrawal_status rejected_once (Some 3) (Num 1) ''completed'' None)) = 200
   \<and> map_option Withdrawal.status
        (map_of (withdrawals (snd (put_withdrawal_status rejected_once (Some 3) (Num 1)
                                     ''completed'' None))) 1)
       = Some ''completed''"
proof -
  let ?w = "\<lparr>Withdrawal.id = 1, userId = 1, amount = 30, status = ''rejected'',
               stripeTransferId = None\<rparr>"
  have a: "getUser rejected_once 3 = Some example_admin"
    by (simp add: rejected_once_def withdrawn_def example_defs route_defs)
  have r: "role example_admin = ''admin''"
    by (simp add: example_admin_def)
  have w: "map_of (withdrawals rejected_once) 1 = Some ?w"
    by (simp add: rejected_once_def withdrawn_def example_defs route_defs)
  have t: "''completed'' \<in> {''pending'', ''completed'', ''rejected''}"
    by simp
  have n: "(3::int) \<noteq> 0" by simp
  show ?thesis
    using withdrawal_status_unguarded[OF refl n a r w t, of None] a r w
    by simp
qed

end
